theory Spec2Isabelle
  imports Complex_Main
begin

section \<open>The weather dashboard's API client and its time-boxed cache\<close>

text \<open>
  A shallow embedding of \<^verbatim>\<open>src/weather_dashboard/weather_api.py\<close>, class
  \<^verbatim>\<open>WeatherAPI\<close>. The object is a record that every method takes and returns; what the
  method reads from outside (the wall clock, the HTTP exchange) is an explicit argument,
  and the HTTP requests a call sends are part of its outcome. Console output is not part
  of the model.
\<close>

subsection \<open>Python values and exceptions\<close>

text \<open>
  The values found in a decoded JSON body and in the dictionaries the client builds.
  A dictionary is an association list with string keys. The type \<open>'f\<close> stands for
  Python's float, which is not interpreted here.
\<close>

datatype 'f pyval =
    PNone
  | PBool bool
  | PInt int
  | PFloat 'f
  | PStr string
  | PList "'f pyval list"
  | PDict "(string \<times> 'f pyval) list"

datatype error = KeyError | TypeError | IndexError | ValueError | OverflowError | OSError

text \<open>Sequencing of computations that may raise: the first exception wins.\<close>

definition and_then :: "error + 'a \<Rightarrow> ('a \<Rightarrow> error + 'b) \<Rightarrow> error + 'b" where
  "and_then r f = (case r of Inl e \<Rightarrow> Inl e | Inr v \<Rightarrow> f v)"

text \<open>
  What the interpreter and its library supply and this development does not interpret:
  float rounding to one decimal (\<^verbatim>\<open>round(x, 1)\<close>), the test \<^verbatim>\<open>x == 0.0\<close> behind a
  float's truth value, and the calendar functions used by the forecast
  (\<^verbatim>\<open>datetime.fromtimestamp\<close>, \<^verbatim>\<open>strftime('%Y-%m-%d')\<close>, \<^verbatim>\<open>.hour\<close>,
  \<^verbatim>\<open>strftime('%A, %B %d')\<close>).
\<close>

record ('f, 'dt) builtins =
  round1 :: "'f \<Rightarrow> 'f"
  is_zero :: "'f \<Rightarrow> bool"
  fromtimestamp :: "'f pyval \<Rightarrow> error + 'dt"
  strftime_ymd :: "'dt \<Rightarrow> string"
  hour :: "'dt \<Rightarrow> int"
  strftime_long :: "'dt \<Rightarrow> string"

text \<open>Truth value of an object, as \<^verbatim>\<open>not data\<close> tests it.\<close>

fun truthy :: "('f, 'dt) builtins \<Rightarrow> 'f pyval \<Rightarrow> bool" where
  "truthy B PNone = False"
| "truthy B (PBool b) = b"
| "truthy B (PInt i) = (i \<noteq> 0)"
| "truthy B (PFloat x) = (\<not> is_zero B x)"
| "truthy B (PStr s) = (s \<noteq> [])"
| "truthy B (PList xs) = (xs \<noteq> [])"
| "truthy B (PDict kvs) = (kvs \<noteq> [])"

text \<open>\<^verbatim>\<open>x[k]\<close> with a string key \<open>k\<close>.\<close>

fun subscript :: "'f pyval \<Rightarrow> string \<Rightarrow> error + 'f pyval" where
  "subscript (PDict kvs) k = (case map_of kvs k of None \<Rightarrow> Inl KeyError | Some v \<Rightarrow> Inr v)"
| "subscript _ k = Inl TypeError"

text \<open>\<^verbatim>\<open>x[0]\<close>. The keys of a dictionary are strings, so \<open>0\<close> is never one of them.\<close>

fun subscript0 :: "'f pyval \<Rightarrow> error + 'f pyval" where
  "subscript0 (PList xs) = (case xs of [] \<Rightarrow> Inl IndexError | x # _ \<Rightarrow> Inr x)"
| "subscript0 (PStr s) = (case s of [] \<Rightarrow> Inl IndexError | c # _ \<Rightarrow> Inr (PStr [c]))"
| "subscript0 (PDict kvs) = Inl KeyError"
| "subscript0 _ = Inl TypeError"

text \<open>\<^verbatim>\<open>round(x, 1)\<close>: an int (and a bool, which is an int) comes back as an int.\<close>

fun round_1 :: "('f, 'dt) builtins \<Rightarrow> 'f pyval \<Rightarrow> error + 'f pyval" where
  "round_1 B (PInt i) = Inr (PInt i)"
| "round_1 B (PBool b) = Inr (PInt (if b then 1 else 0))"
| "round_1 B (PFloat x) = Inr (PFloat (round1 B x))"
| "round_1 B _ = Inl TypeError"

text \<open>The items a \<^verbatim>\<open>for\<close> loop draws from an object.\<close>

fun iterate :: "'f pyval \<Rightarrow> error + 'f pyval list" where
  "iterate (PList xs) = Inr xs"
| "iterate (PDict kvs) = Inr (map (\<lambda>kv. PStr (fst kv)) kvs)"
| "iterate (PStr s) = Inr (map (\<lambda>c. PStr [c]) s)"
| "iterate _ = Inl TypeError"

subsection \<open>Strings\<close>

text \<open>
  A \<open>char\<close> is a code point below 256 (Latin-1). On these \<^verbatim>\<open>str.lower\<close> moves
  \<open>A\<close>..\<open>Z\<close> and the accented capitals 192..222 (without the multiplication sign 215)
  32 places up and leaves every other character alone.
\<close>

definition lower_char :: "char \<Rightarrow> char" where
  "lower_char c =
     (let n = (of_char c :: nat)
      in if (65 \<le> n \<and> n \<le> 90) \<or> (192 \<le> n \<and> n \<le> 222 \<and> n \<noteq> 215)
         then char_of (n + 32) else c)"

definition lower :: "string \<Rightarrow> string" where
  "lower s = map lower_char s"

subsection \<open>The client object\<close>

text \<open>
  A \<^verbatim>\<open>datetime\<close> is its number of microseconds since a fixed origin;
  \<^verbatim>\<open>timedelta.total_seconds()\<close> divides the microseconds of a difference by \<open>10\<^sup>6\<close>.
  The quotient is a rational here; the float the interpreter computes is its correctly
  rounded value, which lies on the same side of an integer bound such as 600.
\<close>

type_synonym datetime = int

definition total_seconds :: "int \<Rightarrow> rat" where
  "total_seconds d = of_int d / 1000000"

record 'f cache_entry =
  data :: "'f pyval"
  timestamp :: datetime

record 'f weather_api =
  api_key :: string
  base_url :: string
  cache :: "string \<rightharpoonup> 'f cache_entry"
  cache_duration :: int

definition init :: "string \<Rightarrow> 'f weather_api" where
  "init key =
     \<lparr>api_key = key,
      base_url = ''http://api.openweathermap.org/data/2.5'',
      cache = Map.empty,
      cache_duration = 600\<rparr>"

subsection \<open>The HTTP exchange\<close>

text \<open>
  What \<^verbatim>\<open>requests.get\<close> does with a request: it answers with a status code and a body
  (\<open>None\<close> when \<^verbatim>\<open>response.json()\<close> raises), or it raises.
\<close>

datatype 'f http_outcome =
    Response int "'f pyval option"
  | Timeout
  | ConnectionError
  | OtherException

record request =
  url :: string
  params :: "(string \<times> string) list"

text \<open>
  \<^verbatim>\<open>_make_request\<close>: the request sent, and the decoded body or \<open>PNone\<close>. Every exception
  is caught inside, also the one of \<^verbatim>\<open>response.json()\<close>.
\<close>

definition make_request ::
  "'f weather_api \<Rightarrow> string \<Rightarrow> (string \<times> string) list \<Rightarrow> 'f http_outcome \<Rightarrow> request \<times> 'f pyval" where
  "make_request api endpoint ps h =
     (let ps' = ps @ [(''appid'', api_key api), (''units'', ''metric'')];
          req = \<lparr>url = base_url api @ ''/'' @ endpoint, params = ps'\<rparr>
      in (req,
          case h of
            Response status body \<Rightarrow>
              (if status = 200 then (case body of None \<Rightarrow> PNone | Some j \<Rightarrow> j) else PNone)
          | Timeout \<Rightarrow> PNone
          | ConnectionError \<Rightarrow> PNone
          | OtherException \<Rightarrow> PNone))"

subsection \<open>Cache validity\<close>

text \<open>\<^verbatim>\<open>_is_cache_valid\<close>, with the reading of the clock it takes as \<open>now\<close>.\<close>

definition is_cache_valid :: "'f weather_api \<Rightarrow> string \<Rightarrow> datetime \<Rightarrow> bool" where
  "is_cache_valid api cache_key now =
     (case cache api cache_key of
        None \<Rightarrow> False
      | Some e \<Rightarrow> total_seconds (now - timestamp e) < of_int (cache_duration api))"

subsection \<open>Current weather\<close>

text \<open>
  What one call of a lookup method reads from outside: the clock when the cache is
  checked, the HTTP exchange, and the clock when the result is stored.
\<close>

record 'f env =
  now_check :: datetime
  http :: "'f http_outcome"
  now_store :: datetime

text \<open>
  What a call leaves behind: the value returned (\<open>Inr PNone\<close> for \<^verbatim>\<open>None\<close>) or the
  exception raised, the object afterwards, and the requests sent.
\<close>

record 'f outcome =
  returned :: "error + 'f pyval"
  api_after :: "'f weather_api"
  requests :: "request list"

text \<open>The dictionary \<^verbatim>\<open>weather_info\<close>, its entries evaluated in the order written.\<close>

definition weather_info :: "('f, 'dt) builtins \<Rightarrow> 'f pyval \<Rightarrow> error + 'f pyval" where
  "weather_info B d =
     and_then (subscript d ''name'') (\<lambda>city.
     and_then (and_then (subscript d ''sys'') (\<lambda>s. subscript s ''country'')) (\<lambda>country.
     and_then (and_then (and_then (subscript d ''main'') (\<lambda>m. subscript m ''temp'')) (round_1 B))
       (\<lambda>temperature.
     and_then (and_then (and_then (subscript d ''main'') (\<lambda>m. subscript m ''feels_like''))
         (round_1 B)) (\<lambda>feels_like.
     and_then (and_then (and_then (subscript d ''weather'') subscript0)
         (\<lambda>w. subscript w ''description'')) (\<lambda>description.
     and_then (and_then (subscript d ''main'') (\<lambda>m. subscript m ''humidity'')) (\<lambda>humidity.
     and_then (and_then (subscript d ''main'') (\<lambda>m. subscript m ''pressure'')) (\<lambda>pressure.
     and_then (and_then (and_then (subscript d ''wind'') (\<lambda>w. subscript w ''speed'')) (round_1 B))
       (\<lambda>wind_speed.
     Inr (PDict
       [(''city'', city),
        (''country'', country),
        (''temperature'', temperature),
        (''feels_like'', feels_like),
        (''description'', description),
        (''humidity'', humidity),
        (''pressure'', pressure),
        (''wind_speed'', wind_speed)])))))))))"

text \<open>The cache key of a city's current weather, \<^verbatim>\<open>f"current_{city.lower()}"\<close>.\<close>

definition current_key :: "string \<Rightarrow> string" where
  "current_key city = ''current_'' @ lower city"

definition get_current_weather ::
  "('f, 'dt) builtins \<Rightarrow> 'f weather_api \<Rightarrow> string \<Rightarrow> 'f env \<Rightarrow> 'f outcome" where
  "get_current_weather B api city env =
     (let cache_key = current_key city
      in if is_cache_valid api cache_key (now_check env)
         then \<lparr>returned =
                 (case cache api cache_key of
                    None \<Rightarrow> Inl KeyError
                  | Some e \<Rightarrow> Inr (data e)),
               api_after = api, requests = []\<rparr>
         else
           (case make_request api ''weather'' [(''q'', city)] (http env) of
              (req, d) \<Rightarrow>
                if \<not> truthy B d
                then \<lparr>returned = Inr PNone, api_after = api, requests = [req]\<rparr>
                else
                  (case weather_info B d of
                     Inl e \<Rightarrow> \<lparr>returned = Inl e, api_after = api, requests = [req]\<rparr>
                   | Inr info \<Rightarrow>
                       \<lparr>returned = Inr info,
                        api_after = api\<lparr>cache := (cache api)(cache_key \<mapsto>
                          \<lparr>data = info, timestamp = now_store env\<rparr>)\<rparr>,
                        requests = [req]\<rparr>)))"

subsection \<open>Forecast\<close>

text \<open>The dictionary \<^verbatim>\<open>forecast\<close> built for one item of the list.\<close>

definition forecast_entry :: "('f, 'dt) builtins \<Rightarrow> 'f pyval \<Rightarrow> 'dt \<Rightarrow> error + 'f pyval" where
  "forecast_entry B item date_time =
     and_then (and_then (and_then (subscript item ''main'') (\<lambda>m. subscript m ''temp_min''))
         (round_1 B)) (\<lambda>temp_min.
     and_then (and_then (and_then (subscript item ''main'') (\<lambda>m. subscript m ''temp_max''))
         (round_1 B)) (\<lambda>temp_max.
     and_then (and_then (and_then (subscript item ''weather'') subscript0)
         (\<lambda>w. subscript w ''description'')) (\<lambda>description.
     and_then (and_then (subscript item ''main'') (\<lambda>m. subscript m ''humidity'')) (\<lambda>humidity.
     Inr (PDict
       [(''date'', PStr (strftime_long B date_time)),
        (''temp_min'', temp_min),
        (''temp_max'', temp_max),
        (''description'', description),
        (''humidity'', humidity)])))))"

text \<open>
  The loop over \<^verbatim>\<open>data['list']\<close>: one forecast for each new day whose item is at
  12 o'clock, until five are collected.
\<close>

fun forecast_loop ::
  "('f, 'dt) builtins \<Rightarrow> 'f pyval list \<Rightarrow> 'f pyval list \<Rightarrow> string set \<Rightarrow> error + 'f pyval list" where
  "forecast_loop B [] forecasts processed_dates = Inr forecasts"
| "forecast_loop B (item # rest) forecasts processed_dates =
     (case and_then (subscript item ''dt'') (fromtimestamp B) of
        Inl e \<Rightarrow> Inl e
      | Inr date_time \<Rightarrow>
          (let date_str = strftime_ymd B date_time
           in case (if date_str \<notin> processed_dates \<and> hour B date_time = 12
                    then and_then (forecast_entry B item date_time)
                           (\<lambda>forecast. Inr (forecasts @ [forecast], insert date_str processed_dates))
                    else Inr (forecasts, processed_dates)) of
                Inl e \<Rightarrow> Inl e
              | Inr (forecasts', processed_dates') \<Rightarrow>
                  if 5 \<le> length forecasts' then Inr forecasts'
                  else forecast_loop B rest forecasts' processed_dates'))"

text \<open>The dictionary \<^verbatim>\<open>forecast_info\<close>.\<close>

definition forecast_info :: "('f, 'dt) builtins \<Rightarrow> 'f pyval \<Rightarrow> error + 'f pyval" where
  "forecast_info B d =
     and_then (and_then (subscript d ''list'') iterate) (\<lambda>items.
     and_then (forecast_loop B items [] {}) (\<lambda>forecasts.
     and_then (and_then (subscript d ''city'') (\<lambda>c. subscript c ''name'')) (\<lambda>city.
     Inr (PDict [(''city'', city), (''forecasts'', PList forecasts)]))))"

text \<open>The cache key of a city's forecast, \<^verbatim>\<open>f"forecast_{city.lower()}"\<close>.\<close>

definition forecast_key :: "string \<Rightarrow> string" where
  "forecast_key city = ''forecast_'' @ lower city"

definition get_forecast ::
  "('f, 'dt) builtins \<Rightarrow> 'f weather_api \<Rightarrow> string \<Rightarrow> 'f env \<Rightarrow> 'f outcome" where
  "get_forecast B api city env =
     (let cache_key = forecast_key city
      in if is_cache_valid api cache_key (now_check env)
         then \<lparr>returned =
                 (case cache api cache_key of
                    None \<Rightarrow> Inl KeyError
                  | Some e \<Rightarrow> Inr (data e)),
               api_after = api, requests = []\<rparr>
         else
           (case make_request api ''forecast'' [(''q'', city)] (http env) of
              (req, d) \<Rightarrow>
                if \<not> truthy B d
                then \<lparr>returned = Inr PNone, api_after = api, requests = [req]\<rparr>
                else
                  (case forecast_info B d of
                     Inl e \<Rightarrow> \<lparr>returned = Inl e, api_after = api, requests = [req]\<rparr>
                   | Inr info \<Rightarrow>
                       \<lparr>returned = Inr info,
                        api_after = api\<lparr>cache := (cache api)(cache_key \<mapsto>
                          \<lparr>data = info, timestamp = now_store env\<rparr>)\<rparr>,
                        requests = [req]\<rparr>)))"

subsection \<open>Clearing the cache\<close>

definition clear_cache :: "'f weather_api \<Rightarrow> 'f weather_api" where
  "clear_cache api = api\<lparr>cache := Map.empty\<rparr>"

subsection \<open>The methods a caller has\<close>

text \<open>
  The class has three public methods. A call names one of them with its argument;
  \<open>perform\<close> gives the object after the call.
\<close>

datatype call = Get_current_weather string | Get_forecast string | Clear_cache

fun perform :: "('f, 'dt) builtins \<Rightarrow> 'f weather_api \<Rightarrow> call \<times> 'f env \<Rightarrow> 'f weather_api" where
  "perform B api (Get_current_weather city, env) = api_after (get_current_weather B api city env)"
| "perform B api (Get_forecast city, env) = api_after (get_forecast B api city env)"
| "perform B api (Clear_cache, env) = clear_cache api"

text \<open>A session: the calls made on an object one after the other.\<close>

fun perform_all ::
  "('f, 'dt) builtins \<Rightarrow> 'f weather_api \<Rightarrow> (call \<times> 'f env) list \<Rightarrow> 'f weather_api" where
  "perform_all B api [] = api"
| "perform_all B api (c # cs) = perform_all B (perform B api c) cs"

subsection \<open>Notions of the specification\<close>




subsection \<open>Example data\<close>

text \<open>
  A stand-in for the uninterpreted built-ins, with rationals for floats and seconds
  since the epoch (UTC) for calendar dates, and bodies as the weather service sends them.
\<close>

fun decimal :: "nat \<Rightarrow> string" where
  "decimal n =
     (if n < 10 then [char_of (48 + n)]
      else decimal (n div 10) @ [char_of (48 + n mod 10)])"

definition utc_builtins :: "(rat, int) builtins" where
  "utc_builtins =
     \<lparr>round1 = (\<lambda>x. of_int (round (x * 10)) / 10),
      is_zero = (\<lambda>x. x = 0),
      fromtimestamp = (\<lambda>v. case v of PInt i \<Rightarrow> Inr i | _ \<Rightarrow> Inl TypeError),
      strftime_ymd = (\<lambda>t. ''day '' @ decimal (nat (t div 86400))),
      hour = (\<lambda>t. (t div 3600) mod 24),
      strftime_long = (\<lambda>t. ''Day '' @ decimal (nat (t div 86400)))\<rparr>"

definition paris_body :: "rat pyval" where
  "paris_body =
     PDict
       [(''name'', PStr ''Paris''),
        (''sys'', PDict [(''country'', PStr ''FR'')]),
        (''main'', PDict [(''temp'', PFloat (1234 / 100)), (''feels_like'', PInt 11),
                          (''humidity'', PInt 80), (''pressure'', PInt 1012)]),
        (''weather'', PList [PDict [(''description'', PStr ''light rain'')]]),
        (''wind'', PDict [(''speed'', PFloat (31 / 10))])]"

definition paris_info :: "rat pyval" where
  "paris_info =
     PDict
       [(''city'', PStr ''Paris''),
        (''country'', PStr ''FR''),
        (''temperature'', PFloat (123 / 10)),
        (''feels_like'', PInt 11),
        (''description'', PStr ''light rain''),
        (''humidity'', PInt 80),
        (''pressure'', PInt 1012),
        (''wind_speed'', PFloat (31 / 10))]"



definition paris_forecast_info :: "rat pyval" where
  "paris_forecast_info =
     PDict
       [(''city'', PStr ''Paris''),
        (''forecasts'',
         PList
           [PDict
              [(''date'', PStr ''Day 0''),
               (''temp_min'', PInt 9),
               (''temp_max'', PInt 14),
               (''description'', PStr ''clouds''),
               (''humidity'', PInt 70)]])]"

text \<open>A call made \<open>t\<close> seconds after the origin, which takes no time itself.\<close>

definition env_at :: "int \<Rightarrow> rat http_outcome \<Rightarrow> rat env" where
  "env_at t h = \<lparr>now_check = t * 1000000, http = h, now_store = t * 1000000\<rparr>"

definition demo_api :: "rat weather_api" where
  "demo_api = init ''demo''"

text \<open>A client whose cache holds the current weather of two cities, both stored at the origin.\<close>

definition two_city_api :: "rat weather_api" where
  "two_city_api =
     demo_api\<lparr>cache :=
       [''current_paris'' \<mapsto> \<lparr>data = paris_info, timestamp = 0\<rparr>,
        ''current_rome'' \<mapsto> \<lparr>data = PStr ''Rome'', timestamp = 0\<rparr>,
        ''forecast_paris'' \<mapsto> \<lparr>data = paris_forecast_info, timestamp = 0\<rparr>]\<rparr>"

section \<open>Auxiliary facts\<close>

subsection \<open>Validity as a comparison of microseconds\<close>



lemma stale_not_valid:
  assumes "cache api k = Some e"
    and "of_int (cache_duration api) \<le> total_seconds (now - timestamp e)"
  shows "\<not> is_cache_valid api k now"
  using assms by (simp add: is_cache_valid_def)

lemma empty_not_valid: "\<not> is_cache_valid (clear_cache api) k now"
  by (simp add: is_cache_valid_def clear_cache_def)

subsection \<open>The two branches of a lookup\<close>

lemma weather_request:
  "fst (make_request api ''weather'' [(''q'', city)] h) =
     \<lparr>url = base_url api @ ''/weather'',
      params = [(''q'', city), (''appid'', api_key api), (''units'', ''metric'')]\<rparr>"
  by (simp add: make_request_def)

lemma forecast_request:
  "fst (make_request api ''forecast'' [(''q'', city)] h) =
     \<lparr>url = base_url api @ ''/forecast'',
      params = [(''q'', city), (''appid'', api_key api), (''units'', ''metric'')]\<rparr>"
  by (simp add: make_request_def)

lemma make_request_clear:
  "make_request (clear_cache api) endpoint ps h = make_request api endpoint ps h"
  by (simp add: make_request_def clear_cache_def)

lemma gcw_valid:
  assumes "is_cache_valid api (current_key city) (now_check env)"
  shows "get_current_weather B api city env =
           \<lparr>returned = (case cache api (current_key city) of
                          None \<Rightarrow> Inl KeyError | Some e \<Rightarrow> Inr (data e)),
            api_after = api, requests = []\<rparr>"
  using assms by (simp add: get_current_weather_def)

lemma gcw_invalid:
  assumes "\<not> is_cache_valid api (current_key city) (now_check env)"
  shows "get_current_weather B api city env =
           (let req = fst (make_request api ''weather'' [(''q'', city)] (http env));
                d = snd (make_request api ''weather'' [(''q'', city)] (http env))
            in if \<not> truthy B d
               then \<lparr>returned = Inr PNone, api_after = api, requests = [req]\<rparr>
               else (case weather_info B d of
                       Inl e \<Rightarrow> \<lparr>returned = Inl e, api_after = api, requests = [req]\<rparr>
                     | Inr info \<Rightarrow>
                         \<lparr>returned = Inr info,
                          api_after = api\<lparr>cache := (cache api)(current_key city \<mapsto>
                            \<lparr>data = info, timestamp = now_store env\<rparr>)\<rparr>,
                          requests = [req]\<rparr>))"
  using assms by (simp add: get_current_weather_def Let_def case_prod_beta)

lemma gf_valid:
  assumes "is_cache_valid api (forecast_key city) (now_check env)"
  shows "get_forecast B api city env =
           \<lparr>returned = (case cache api (forecast_key city) of
                          None \<Rightarrow> Inl KeyError | Some e \<Rightarrow> Inr (data e)),
            api_after = api, requests = []\<rparr>"
  using assms by (simp add: get_forecast_def)

lemma gf_invalid:
  assumes "\<not> is_cache_valid api (forecast_key city) (now_check env)"
  shows "get_forecast B api city env =
           (let req = fst (make_request api ''forecast'' [(''q'', city)] (http env));
                d = snd (make_request api ''forecast'' [(''q'', city)] (http env))
            in if \<not> truthy B d
               then \<lparr>returned = Inr PNone, api_after = api, requests = [req]\<rparr>
               else (case forecast_info B d of
                       Inl e \<Rightarrow> \<lparr>returned = Inl e, api_after = api, requests = [req]\<rparr>
                     | Inr info \<Rightarrow>
                         \<lparr>returned = Inr info,
                          api_after = api\<lparr>cache := (cache api)(forecast_key city \<mapsto>
                            \<lparr>data = info, timestamp = now_store env\<rparr>)\<rparr>,
                          requests = [req]\<rparr>))"
  using assms by (simp add: get_forecast_def Let_def case_prod_beta)

text \<open>A lookup that finds no valid entry sends exactly one request, whatever comes back.\<close>

lemma gcw_invalid_requests:
  assumes "\<not> is_cache_valid api (current_key city) (now_check env)"
  shows "requests (get_current_weather B api city env) =
           [\<lparr>url = base_url api @ ''/weather'',
             params = [(''q'', city), (''appid'', api_key api), (''units'', ''metric'')]\<rparr>]"
  using assms
  by (simp add: gcw_invalid Let_def weather_request split: sum.splits)

lemma gf_invalid_requests:
  assumes "\<not> is_cache_valid api (forecast_key city) (now_check env)"
  shows "requests (get_forecast B api city env) =
           [\<lparr>url = base_url api @ ''/forecast'',
             params = [(''q'', city), (''appid'', api_key api), (''units'', ''metric'')]\<rparr>]"
  using assms
  by (simp add: gf_invalid Let_def forecast_request split: sum.splits)

text \<open>What such a lookup returns does not depend on what the cache holds.\<close>

lemma gcw_invalid_returned:
  assumes "\<not> is_cache_valid api (current_key city) (now_check env)"
  shows "returned (get_current_weather B api city env) =
           returned (get_current_weather B (clear_cache api) city env)"
  using assms empty_not_valid [of api "current_key city" "now_check env"]
  by (simp add: gcw_invalid Let_def make_request_clear split: sum.splits)

lemma gf_invalid_returned:
  assumes "\<not> is_cache_valid api (forecast_key city) (now_check env)"
  shows "returned (get_forecast B api city env) =
           returned (get_forecast B (clear_cache api) city env)"
  using assms empty_not_valid [of api "forecast_key city" "now_check env"]
  by (simp add: gf_invalid Let_def make_request_clear split: sum.splits)

text \<open>A lookup leaves the cache as it was or stores one entry under its own key.\<close>

lemma gcw_cache:
  "cache (api_after (get_current_weather B api city env)) = cache api
   \<or> (\<not> is_cache_valid api (current_key city) (now_check env)
      \<and> (\<exists>info. returned (get_current_weather B api city env) = Inr info
            \<and> cache (api_after (get_current_weather B api city env)) =
                (cache api)(current_key city \<mapsto> \<lparr>data = info, timestamp = now_store env\<rparr>)))"
  by (cases "is_cache_valid api (current_key city) (now_check env)")
     (simp_all add: gcw_valid gcw_invalid Let_def split: sum.splits)

lemma gf_cache:
  "cache (api_after (get_forecast B api city env)) = cache api
   \<or> (\<not> is_cache_valid api (forecast_key city) (now_check env)
      \<and> (\<exists>info. returned (get_forecast B api city env) = Inr info
            \<and> cache (api_after (get_forecast B api city env)) =
                (cache api)(forecast_key city \<mapsto> \<lparr>data = info, timestamp = now_store env\<rparr>)))"
  by (cases "is_cache_valid api (forecast_key city) (now_check env)")
     (simp_all add: gf_valid gf_invalid Let_def split: sum.splits)

text \<open>Only the cache of the object ever changes.\<close>

lemma gcw_fields:
  "api_after (get_current_weather B api city env) =
     api\<lparr>cache := cache (api_after (get_current_weather B api city env))\<rparr>"
  by (cases "is_cache_valid api (current_key city) (now_check env)")
     (simp_all add: gcw_valid gcw_invalid Let_def split: sum.splits)

lemma gf_fields:
  "api_after (get_forecast B api city env) =
     api\<lparr>cache := cache (api_after (get_forecast B api city env))\<rparr>"
  by (cases "is_cache_valid api (forecast_key city) (now_check env)")
     (simp_all add: gf_valid gf_invalid Let_def split: sum.splits)

lemma perform_fields:
  "perform B api (c, env) = api\<lparr>cache := cache (perform B api (c, env))\<rparr>"
proof (cases c)
  case (Get_current_weather city)
  then show ?thesis using gcw_fields [of B api city env] by simp
next
  case (Get_forecast city)
  then show ?thesis using gf_fields [of B api city env] by simp
next
  case Clear_cache
  then show ?thesis by (simp add: clear_cache_def)
qed

lemma perform_cache_duration:
  "cache_duration (perform B api ce) = cache_duration api"
proof (cases ce)
  case (Pair c env)
  have "cache_duration (api\<lparr>cache := cache (perform B api (c, env))\<rparr>) = cache_duration api"
    by simp
  then show ?thesis using perform_fields [of B api c env] Pair by simp
qed

lemma perform_all_cache_duration:
  "cache_duration (perform_all B api cs) = cache_duration api"
  by (induction cs arbitrary: api) (simp_all add: perform_cache_duration)

text \<open>A lookup never removes a key.\<close>

lemma gcw_dom: "dom (cache api) \<subseteq> dom (cache (api_after (get_current_weather B api city env)))"
  using gcw_cache [of B api city env] by auto

lemma gf_dom: "dom (cache api) \<subseteq> dom (cache (api_after (get_forecast B api city env)))"
  using gf_cache [of B api city env] by auto

subsection \<open>Lower case\<close>



lemma current_not_forecast: "current_key c \<noteq> forecast_key c'"
  by (simp add: current_key_def forecast_key_def)

subsection \<open>The example data, evaluated\<close>




lemma keys_paris:
  "current_key ''Paris'' = ''current_paris''"
  "current_key ''PARIS'' = ''current_paris''"
  "current_key '' Paris'' = ''current_ paris''"
  "forecast_key ''Paris'' = ''forecast_paris''"
  "forecast_key ''PARIS'' = ''forecast_paris''"
  by code_simp+

subsection \<open>A second lookup inside the window\<close>



section \<open>The claims\<close>



text \<open>
  C2. For every key: a lookup made when the freshness window has elapsed since the
  entry was stored (the seconds since its timestamp are at least the window) sends a
  request again, and what it returns is what it would return with an empty cache: the
  cached value is not served.
\<close>

theorem lookup_after_window_fetches_again:
  "(cache api (current_key city) = Some e
      \<and> of_int (cache_duration api) \<le> total_seconds (now_check env - timestamp e)
    \<longrightarrow> requests (get_current_weather B api city env) =
          [\<lparr>url = base_url api @ ''/weather'',
            params = [(''q'', city), (''appid'', api_key api), (''units'', ''metric'')]\<rparr>]
      \<and> returned (get_current_weather B api city env) =
          returned (get_current_weather B (clear_cache api) city env))
   \<and> (cache api (forecast_key city) = Some e
      \<and> of_int (cache_duration api) \<le> total_seconds (now_check env - timestamp e)
    \<longrightarrow> requests (get_forecast B api city env) =
          [\<lparr>url = base_url api @ ''/forecast'',
            params = [(''q'', city), (''appid'', api_key api), (''units'', ''metric'')]\<rparr>]
      \<and> returned (get_forecast B api city env) =
          returned (get_forecast B (clear_cache api) city env))"
  using stale_not_valid [of api "current_key city" e "now_check env"]
    stale_not_valid [of api "forecast_key city" e "now_check env"]
    gcw_invalid_requests [of api city env B] gcw_invalid_returned [of api city env B]
    gf_invalid_requests [of api city env B] gf_invalid_returned [of api city env B]
  by blast

text \<open>The scenario of the specification: the entry was stored at second 0, the call comes at second 601.\<close>

theorem lookup_after_window_fetches_again_witness:
  "cache two_city_api (current_key ''Paris'') = Some \<lparr>data = paris_info, timestamp = 0\<rparr>
   \<and> of_int (cache_duration two_city_api)
       \<le> total_seconds (now_check (env_at 601 (Response 200 (Some paris_body)))
            - timestamp \<lparr>data = paris_info, timestamp = 0\<rparr>)
   \<and> requests (get_current_weather utc_builtins two_city_api ''Paris''
        (env_at 601 (Response 200 (Some paris_body)))) =
       [\<lparr>url = ''http://api.openweathermap.org/data/2.5/weather'',
         params = [(''q'', ''Paris''), (''appid'', ''demo''), (''units'', ''metric'')]\<rparr>]
   \<and> cache two_city_api (forecast_key ''Paris'') =
       Some \<lparr>data = paris_forecast_info, timestamp = 0\<rparr>
   \<and> of_int (cache_duration two_city_api)
       \<le> total_seconds (now_check (env_at 601 (Response 200 (Some paris_body)))
            - timestamp \<lparr>data = paris_forecast_info, timestamp = 0\<rparr>)
   \<and> requests (get_forecast utc_builtins two_city_api ''Paris''
        (env_at 601 (Response 200 (Some paris_body)))) =
       [\<lparr>url = ''http://api.openweathermap.org/data/2.5/forecast'',
         params = [(''q'', ''Paris''), (''appid'', ''demo''), (''units'', ''metric'')]\<rparr>]"
proof -
  let ?env = "env_at 601 (Response 200 (Some paris_body))"
  let ?e = "\<lparr>data = paris_info, timestamp = 0\<rparr>"
  let ?f = "\<lparr>data = paris_forecast_info, timestamp = 0\<rparr>"
  have entry: "cache two_city_api (current_key ''Paris'') = Some ?e"
    "cache two_city_api (forecast_key ''Paris'') = Some ?f"
    by (simp_all add: keys_paris two_city_api_def)
  have late: "of_int (cache_duration two_city_api) \<le> total_seconds (now_check ?env - timestamp ?e)"
    "of_int (cache_duration two_city_api) \<le> total_seconds (now_check ?env - timestamp ?f)"
    by (simp_all add: two_city_api_def demo_api_def init_def total_seconds_def env_at_def)
  have fields: "base_url two_city_api = ''http://api.openweathermap.org/data/2.5''"
    "api_key two_city_api = ''demo''"
    by (simp_all add: two_city_api_def demo_api_def init_def)
  show ?thesis
    using lookup_after_window_fetches_again [of two_city_api "''Paris''" ?e ?env utc_builtins]
      lookup_after_window_fetches_again [of two_city_api "''Paris''" ?f ?env utc_builtins]
      entry late fields
    by simp
qed

text \<open>
  C3. For every key: when no valid entry can be served and the fetch brings no data
  (\<^verbatim>\<open>_make_request\<close> returns \<^verbatim>\<open>None\<close> or another false value), the call returns
  \<^verbatim>\<open>None\<close>, not a stored stale value, and the object, with the entry of the key if
  there was one, is left exactly as it was.
\<close>

theorem failed_fetch_returns_none_and_keeps_cache:
  "(\<not> is_cache_valid api (current_key city) (now_check env)
      \<and> \<not> truthy B (snd (make_request api ''weather'' [(''q'', city)] (http env)))
    \<longrightarrow> returned (get_current_weather B api city env) = Inr PNone
      \<and> api_after (get_current_weather B api city env) = api)
   \<and> (\<not> is_cache_valid api (forecast_key city) (now_check env)
      \<and> \<not> truthy B (snd (make_request api ''forecast'' [(''q'', city)] (http env)))
    \<longrightarrow> returned (get_forecast B api city env) = Inr PNone
      \<and> api_after (get_forecast B api city env) = api)"
  by (simp add: gcw_invalid gf_invalid Let_def)

text \<open>A stale entry of Paris and a request that times out.\<close>

theorem failed_fetch_returns_none_and_keeps_cache_witness:
  "\<not> is_cache_valid two_city_api (current_key ''Paris'') (now_check (env_at 700 Timeout))
   \<and> \<not> truthy utc_builtins
        (snd (make_request two_city_api ''weather'' [(''q'', ''Paris'')] (http (env_at 700 Timeout))))
   \<and> returned (get_current_weather utc_builtins two_city_api ''Paris'' (env_at 700 Timeout)) = Inr PNone
   \<and> cache (api_after (get_current_weather utc_builtins two_city_api ''Paris'' (env_at 700 Timeout)))
        ''current_paris'' = Some \<lparr>data = paris_info, timestamp = 0\<rparr>
   \<and> \<not> is_cache_valid two_city_api (forecast_key ''Paris'') (now_check (env_at 700 Timeout))
   \<and> \<not> truthy utc_builtins
        (snd (make_request two_city_api ''forecast'' [(''q'', ''Paris'')] (http (env_at 700 Timeout))))
   \<and> returned (get_forecast utc_builtins two_city_api ''Paris'' (env_at 700 Timeout)) = Inr PNone
   \<and> cache (api_after (get_forecast utc_builtins two_city_api ''Paris'' (env_at 700 Timeout)))
        ''forecast_paris'' = Some \<lparr>data = paris_forecast_info, timestamp = 0\<rparr>"
proof -
  let ?env = "env_at 700 Timeout"
  have stale: "\<not> is_cache_valid two_city_api (current_key ''Paris'') (now_check ?env)"
    "\<not> is_cache_valid two_city_api (forecast_key ''Paris'') (now_check ?env)"
    by (simp_all add: keys_paris is_cache_valid_def two_city_api_def demo_api_def init_def
        total_seconds_def env_at_def)
  have failed: "\<not> truthy utc_builtins
      (snd (make_request two_city_api ''weather'' [(''q'', ''Paris'')] (http ?env)))"
    "\<not> truthy utc_builtins
      (snd (make_request two_city_api ''forecast'' [(''q'', ''Paris'')] (http ?env)))"
    by (simp_all add: make_request_def env_at_def)
  have entry: "cache two_city_api ''current_paris'' = Some \<lparr>data = paris_info, timestamp = 0\<rparr>"
    "cache two_city_api ''forecast_paris'' = Some \<lparr>data = paris_forecast_info, timestamp = 0\<rparr>"
    by (simp_all add: two_city_api_def)
  show ?thesis
    using failed_fetch_returns_none_and_keeps_cache [of two_city_api "''Paris''" ?env utc_builtins]
      stale failed entry
    by simp
qed

text \<open>
  C4, as stated: the cache has an operation \<^verbatim>\<open>invalidate(key)\<close> that removes the entry
  of one key and nothing else. The class has no such method: with the weather of Paris
  and of Rome in the cache, no call of any method, whatever the clock and the network
  do, leaves the cache without the entry of Paris and otherwise as it was.
\<close>

theorem invalidate_single_entry_counterexample:
  "\<not> (\<exists>c env. cache (perform utc_builtins two_city_api (c, env)) =
         (cache two_city_api)(''current_paris'' := None))"
proof
  assume "\<exists>c env. cache (perform utc_builtins two_city_api (c, env)) =
         (cache two_city_api)(''current_paris'' := None)"
  then obtain c env where removed: "cache (perform utc_builtins two_city_api (c, env)) =
         (cache two_city_api)(''current_paris'' := None)"
    by blast
  have paris: "''current_paris'' \<in> dom (cache two_city_api)"
    by (simp add: two_city_api_def)
  have rome: "((cache two_city_api)(''current_paris'' := None)) ''current_rome'' \<noteq> None"
    by (simp add: two_city_api_def)
  show False
  proof (cases c)
    case (Get_current_weather city)
    then have "''current_paris'' \<in> dom (cache (perform utc_builtins two_city_api (c, env)))"
      using gcw_dom [of two_city_api utc_builtins city env] paris by auto
    then show False using removed by simp
  next
    case (Get_forecast city)
    then have "''current_paris'' \<in> dom (cache (perform utc_builtins two_city_api (c, env)))"
      using gf_dom [of two_city_api utc_builtins city env] paris by auto
    then show False using removed by simp
  next
    case Clear_cache
    then have "cache (perform utc_builtins two_city_api (c, env)) ''current_rome'' = None"
      by (simp add: clear_cache_def)
    then show False using removed rome by simp
  qed
qed

text \<open>
  C4, amended: the client has no operation that removes the entry of a single key. A
  lookup never removes an entry; an entry disappears only through \<^verbatim>\<open>clear_cache\<close>, which
  empties the whole cache, and a lookup that follows it sends a request, whatever the key.
\<close>

theorem entries_removed_only_by_clear_cache:
  "(k \<in> dom (cache api) \<and> k \<notin> dom (cache (perform B api (c, env)))
    \<longrightarrow> c = Clear_cache \<and> cache (perform B api (c, env)) = Map.empty)
   \<and> requests (get_current_weather B (perform B api (Clear_cache, env)) city env') \<noteq> []
   \<and> requests (get_forecast B (perform B api (Clear_cache, env)) city env') \<noteq> []"
proof -
  have "k \<in> dom (cache api) \<Longrightarrow> k \<notin> dom (cache (perform B api (c, env)))
      \<Longrightarrow> c = Clear_cache \<and> cache (perform B api (c, env)) = Map.empty"
  proof (cases c)
    case (Get_current_weather x)
    assume "k \<in> dom (cache api)" "k \<notin> dom (cache (perform B api (c, env)))"
    then show ?thesis using Get_current_weather gcw_dom [of api B x env] by auto
  next
    case (Get_forecast x)
    assume "k \<in> dom (cache api)" "k \<notin> dom (cache (perform B api (c, env)))"
    then show ?thesis using Get_forecast gf_dom [of api B x env] by auto
  next
    case Clear_cache
    then show ?thesis by (simp add: clear_cache_def)
  qed
  moreover have "requests (get_current_weather B (perform B api (Clear_cache, env)) city env') \<noteq> []"
    using gcw_invalid_requests [of "clear_cache api" city env' B]
      empty_not_valid [of api "current_key city" "now_check env'"]
    by simp
  moreover have "requests (get_forecast B (perform B api (Clear_cache, env)) city env') \<noteq> []"
    using gf_invalid_requests [of "clear_cache api" city env' B]
      empty_not_valid [of api "forecast_key city" "now_check env'"]
    by simp
  ultimately show ?thesis by blast
qed

theorem entries_removed_only_by_clear_cache_witness:
  "''current_paris'' \<in> dom (cache two_city_api)
   \<and> ''current_paris'' \<notin> dom (cache (perform utc_builtins two_city_api (Clear_cache, env_at 0 Timeout)))
   \<and> cache (perform utc_builtins two_city_api (Clear_cache, env_at 0 Timeout)) = Map.empty
   \<and> requests (get_current_weather utc_builtins
        (perform utc_builtins two_city_api (Clear_cache, env_at 0 Timeout)) ''Paris''
        (env_at 1 Timeout)) \<noteq> []"
proof -
  have present: "''current_paris'' \<in> dom (cache two_city_api)"
    by (simp add: two_city_api_def)
  have gone: "''current_paris'' \<notin> dom (cache (perform utc_builtins two_city_api (Clear_cache, env_at 0 Timeout)))"
    by (simp add: clear_cache_def)
  show ?thesis
    using entries_removed_only_by_clear_cache
      [of "''current_paris''" two_city_api utc_builtins Clear_cache "env_at 0 Timeout"
        "''Paris''" "env_at 1 Timeout"]
      present gone
    by blast
qed

text \<open>
  C5. \<^verbatim>\<open>clear_cache\<close> removes all entries: afterwards the cache is empty, and a lookup of
  any key, also one that was cached before, finds no valid entry and sends its request.
\<close>

theorem clear_cache_forces_fetch:
  "cache (clear_cache api) = Map.empty
   \<and> \<not> is_cache_valid (clear_cache api) k now
   \<and> requests (get_current_weather B (clear_cache api) city env) =
       [\<lparr>url = base_url api @ ''/weather'',
         params = [(''q'', city), (''appid'', api_key api), (''units'', ''metric'')]\<rparr>]
   \<and> requests (get_forecast B (clear_cache api) city env) =
       [\<lparr>url = base_url api @ ''/forecast'',
         params = [(''q'', city), (''appid'', api_key api), (''units'', ''metric'')]\<rparr>]"
proof -
  have "base_url (clear_cache api) = base_url api" "api_key (clear_cache api) = api_key api"
    by (simp_all add: clear_cache_def)
  then show ?thesis
    using gcw_invalid_requests [of "clear_cache api" city env B]
      gf_invalid_requests [of "clear_cache api" city env B]
      empty_not_valid [of api]
    by (simp add: clear_cache_def)
qed






text \<open>
  C8. The freshness window is one number held by the client object, set to 600 seconds
  when the object is constructed. An entry carries no window of its own, and no method
  changes the number: after any session of calls it is still 600, and every key is
  judged against it.
\<close>

theorem freshness_window_fixed_at_construction:
  "cache_duration (init key) = 600
   \<and> cache_duration (perform_all B (init key) calls) = 600
   \<and> cache_duration (perform_all B api calls) = cache_duration api
   \<and> (is_cache_valid (perform_all B (init key) calls) k now \<longleftrightarrow>
        (\<exists>e. cache (perform_all B (init key) calls) k = Some e
           \<and> total_seconds (now - timestamp e) < 600))"
proof -
  have "cache_duration (perform_all B (init key) calls) = 600"
    by (simp add: perform_all_cache_duration init_def)
  then show ?thesis
    by (auto simp: is_cache_valid_def init_def perform_all_cache_duration split: option.splits)
qed

text \<open>
  C9. When the seconds elapsed since the entry's timestamp equal the window exactly,
  the entry is not valid (the comparison is a strict \<open><\<close>) and the lookup sends its request.
\<close>

theorem lookup_at_window_edge_is_stale:
  "(cache api (current_key city) = Some e
      \<and> total_seconds (now_check env - timestamp e) = of_int (cache_duration api)
    \<longrightarrow> \<not> is_cache_valid api (current_key city) (now_check env)
      \<and> requests (get_current_weather B api city env) =
          [\<lparr>url = base_url api @ ''/weather'',
            params = [(''q'', city), (''appid'', api_key api), (''units'', ''metric'')]\<rparr>])
   \<and> (cache api (forecast_key city) = Some e
      \<and> total_seconds (now_check env - timestamp e) = of_int (cache_duration api)
    \<longrightarrow> \<not> is_cache_valid api (forecast_key city) (now_check env)
      \<and> requests (get_forecast B api city env) =
          [\<lparr>url = base_url api @ ''/forecast'',
            params = [(''q'', city), (''appid'', api_key api), (''units'', ''metric'')]\<rparr>])"
  using stale_not_valid [of api "current_key city" e "now_check env"]
    stale_not_valid [of api "forecast_key city" e "now_check env"]
    gcw_invalid_requests [of api city env B] gf_invalid_requests [of api city env B]
  by simp

text \<open>An entry stored at second 0 and a call at second 600; one microsecond earlier the entry is valid.\<close>

theorem lookup_at_window_edge_is_stale_witness:
  "cache two_city_api (current_key ''Paris'') = Some \<lparr>data = paris_info, timestamp = 0\<rparr>
   \<and> total_seconds (now_check (env_at 600 Timeout) - timestamp \<lparr>data = paris_info, timestamp = 0\<rparr>)
       = of_int (cache_duration two_city_api)
   \<and> \<not> is_cache_valid two_city_api (current_key ''Paris'') (now_check (env_at 600 Timeout))
   \<and> is_cache_valid two_city_api (current_key ''Paris'') (now_check (env_at 600 Timeout) - 1)
   \<and> requests (get_current_weather utc_builtins two_city_api ''Paris'' (env_at 600 Timeout)) \<noteq> []
   \<and> cache two_city_api (forecast_key ''Paris'') = Some \<lparr>data = paris_forecast_info, timestamp = 0\<rparr>
   \<and> requests (get_forecast utc_builtins two_city_api ''Paris'' (env_at 600 Timeout)) \<noteq> []"
proof -
  let ?env = "env_at 600 Timeout"
  let ?e = "\<lparr>data = paris_info, timestamp = 0\<rparr>"
  let ?f = "\<lparr>data = paris_forecast_info, timestamp = 0\<rparr>"
  have entry: "cache two_city_api (current_key ''Paris'') = Some ?e"
    "cache two_city_api (forecast_key ''Paris'') = Some ?f"
    by (simp_all add: keys_paris two_city_api_def)
  have edge: "total_seconds (now_check ?env - timestamp ?e) = of_int (cache_duration two_city_api)"
    "total_seconds (now_check ?env - timestamp ?f) = of_int (cache_duration two_city_api)"
    by (simp_all add: two_city_api_def demo_api_def init_def total_seconds_def env_at_def)
  have before: "is_cache_valid two_city_api (current_key ''Paris'') (now_check ?env - 1)"
    by (simp add: keys_paris is_cache_valid_def two_city_api_def demo_api_def init_def
        total_seconds_def env_at_def)
  show ?thesis
    using lookup_at_window_edge_is_stale [of two_city_api "''Paris''" ?e ?env utc_builtins]
      lookup_at_window_edge_is_stale [of two_city_api "''Paris''" ?f ?env utc_builtins]
      entry edge before
    by simp
qed

text \<open>
  C10. A call of \<^verbatim>\<open>get_current_weather(city)\<close> changes at most the cache entry under
  \<open>"current_" + lowercase(city)\<close>: every other key keeps its entry, in particular every
  forecast key and the key of every city with another lower-case form, and no other
  attribute of the object changes.
\<close>

theorem get_current_weather_frame:
  "(k \<noteq> current_key city
    \<longrightarrow> cache (api_after (get_current_weather B api city env)) k = cache api k)
   \<and> cache (api_after (get_current_weather B api city env)) (forecast_key c)
       = cache api (forecast_key c)
   \<and> (lower c \<noteq> lower city
    \<longrightarrow> cache (api_after (get_current_weather B api city env)) (current_key c)
        = cache api (current_key c))
   \<and> api_after (get_current_weather B api city env) =
       api\<lparr>cache := cache (api_after (get_current_weather B api city env))\<rparr>"
proof -
  have frame: "cache (api_after (get_current_weather B api city env)) k' = cache api k'"
    if "k' \<noteq> current_key city" for k'
    using gcw_cache [of B api city env] that by auto
  have "forecast_key c \<noteq> current_key city"
    using current_not_forecast [of city c] by simp
  moreover have "lower c \<noteq> lower city \<Longrightarrow> current_key c \<noteq> current_key city"
    by (simp add: current_key_def)
  ultimately show ?thesis
    using frame gcw_fields [of B api city env] by blast
qed

text \<open>Refreshing Paris leaves the weather of Rome and the forecast of Paris alone.\<close>

theorem get_current_weather_frame_witness:
  "''current_rome'' \<noteq> current_key ''Paris''
   \<and> lower ''Rome'' \<noteq> lower ''Paris''
   \<and> cache (api_after (get_current_weather utc_builtins two_city_api ''Paris''
        (env_at 700 (Response 200 (Some paris_body))))) ''current_rome''
       = Some \<lparr>data = PStr ''Rome'', timestamp = 0\<rparr>
   \<and> cache (api_after (get_current_weather utc_builtins two_city_api ''Paris''
        (env_at 700 (Response 200 (Some paris_body))))) (forecast_key ''Paris'')
       = Some \<lparr>data = paris_forecast_info, timestamp = 0\<rparr>"
proof -
  have other: "''current_rome'' \<noteq> current_key ''Paris''"
    by (simp add: keys_paris)
  have low: "lower ''Rome'' \<noteq> lower ''Paris''"
    by code_simp
  have entries: "cache two_city_api ''current_rome'' = Some \<lparr>data = PStr ''Rome'', timestamp = 0\<rparr>"
    "cache two_city_api (forecast_key ''Paris'') = Some \<lparr>data = paris_forecast_info, timestamp = 0\<rparr>"
    by (simp_all add: keys_paris two_city_api_def)
  show ?thesis
    using get_current_weather_frame
      [of "''current_rome''" "''Paris''" utc_builtins two_city_api
        "env_at 700 (Response 200 (Some paris_body))" "''Paris''"]
      other low entries
    by simp
qed

end
